theory Spec2Isabelle
  imports Main
begin

section \<open>Values shared by the configuration model and the middleware\<close>

text \<open>
  JSON values: the content of a \<open>JSONResponse\<close>, the \<open>detail\<close> of an
  \<open>HTTPException\<close> and the values of the claims of a decoded token.
\<close>

datatype json =
    JNull
  | JBool bool
  | JInt int
  | JStr string
  | JList "json list"
  | JObj "(string \<times> json) list"

text \<open>
  The decoded payload of a token is a Python dict from claim names to values.
\<close>

type_synonym payload = "string \<rightharpoonup> json"

text \<open>
  Instances of Python's \<open>Exception\<close> class, as far as the code tells them apart:
  \<open>dispatch\<close> catches \<open>HTTPException\<close> (with its \<open>status_code\<close> and
  \<open>detail\<close>), \<open>create_jwt_middleware\<close> catches \<open>FileNotFoundError\<close> (with its
  message), and every other subclass of \<open>Exception\<close> is \<open>OtherException\<close>.
\<close>

datatype exception =
    HTTPException int json
  | FileNotFoundError string
  | OtherException string

section \<open>config.py\<close>

record AuthenticationConfig =
  enabled :: bool
  public_key_path :: "string option"
  jwt_algorithm :: "string option"

text \<open>
  The field validator of \<open>public_key_path\<close> and \<open>jwt_algorithm\<close>. \<open>info_data\<close> is
  pydantic's \<open>info.data\<close>: the fields validated before this one. The validator raises
  \<open>ValueError("Field required")\<close> (the \<open>Inl\<close> result) and returns the field value
  otherwise.
\<close>

definition validate_optional_fields ::
  "string option \<Rightarrow> (string \<rightharpoonup> json) \<Rightarrow> string + string option" where
  "validate_optional_fields field_value info_data =
     (if (''enabled'' \<in> dom info_data \<and> info_data ''enabled'' = Some (JBool True))
         \<and> field_value = None
      then Inl ''Field required''
      else Inr field_value)"

text \<open>
  Construction of the pydantic model. The fields are validated in the order of their
  declaration; a field that passes is added to \<open>info.data\<close>, one that fails adds an
  error, and construction raises when there is any error. \<open>enabled_in\<close> is \<open>None\<close>
  when the \<open>enabled\<close> argument is missing or is not a bool: that is an error of its
  own, and \<open>enabled\<close> is then absent from \<open>info.data\<close>. The two optional fields
  default to \<open>None\<close>, and the default is validated too (\<open>validate_default=True\<close>).
\<close>

definition optional_json :: "string option \<Rightarrow> json" where
  "optional_json v = (case v of None \<Rightarrow> JNull | Some s \<Rightarrow> JStr s)"

definition AuthenticationConfig_init ::
  "bool option \<Rightarrow> string option \<Rightarrow> string option \<Rightarrow> string list + AuthenticationConfig" where
  "AuthenticationConfig_init enabled_in public_key_path_in jwt_algorithm_in =
     (let data0 = (case enabled_in of
                     None \<Rightarrow> Map.empty
                   | Some b \<Rightarrow> [''enabled'' \<mapsto> JBool b]);
          errors0 = (case enabled_in of
                       None \<Rightarrow> [''enabled: Input should be a valid boolean'']
                     | Some b \<Rightarrow> []);
          r1 = validate_optional_fields public_key_path_in data0;
          data1 = (case r1 of
                     Inl msg \<Rightarrow> data0
                   | Inr v \<Rightarrow> data0(''public_key_path'' \<mapsto> optional_json v));
          errors1 = (case r1 of
                       Inl msg \<Rightarrow> errors0 @ [''public_key_path: Value error, '' @ msg]
                     | Inr v \<Rightarrow> errors0);
          r2 = validate_optional_fields jwt_algorithm_in data1;
          errors2 = (case r2 of
                       Inl msg \<Rightarrow> errors1 @ [''jwt_algorithm: Value error, '' @ msg]
                     | Inr v \<Rightarrow> errors1)
      in case (enabled_in, r1, r2) of
           (Some b, Inr p, Inr a) \<Rightarrow>
             Inr \<lparr>enabled = b, public_key_path = p, jwt_algorithm = a\<rparr>
         | _ \<Rightarrow> Inl errors2)"

section \<open>jwt_middleware.py\<close>

record request =
  url_path :: string
  headers :: "(string \<times> string) list"

record HTTPAuthorizationCredentials =
  scheme :: string
  credentials :: string

text \<open>
  A response is either the \<open>JSONResponse\<close> that the middleware builds (status code and
  content) or whatever the downstream handler produced (status code and body).
\<close>

datatype response =
    JSONResponse int json
  | Response int string

text \<open>
  What the code does to the outside world, in the order in which it does it: it reads
  the key file, logs, asks \<open>HTTPBearer\<close> for the credentials of a request, calls
  \<open>jwt.decode\<close> (token, key, algorithms) and calls the next handler.
\<close>

datatype event =
    OpenRead "string option"
  | LogInfo string
  | LogException string
  | SecurityCall request
  | JwtDecode string string "string option list"
  | CallNext request

text \<open>
  The collaborators that are not part of this repository are parameters:
  \<^item> \<open>open_read\<close>: opening the file at a path and reading all of it;
  \<^item> \<open>security\<close>: FastAPI's \<open>HTTPBearer(auto_error=True)\<close>, which returns the
    credentials of a request or raises;
  \<^item> \<open>jwt_decode\<close>: \<open>jwt.decode(token, key, algorithms=...)\<close>, which returns the
    payload or raises;
  \<^item> \<open>call_next\<close>: the rest of the request pipeline.
\<close>

type_synonym open_read_t = "string option \<Rightarrow> exception + string"
type_synonym security_t = "request \<Rightarrow> exception + HTTPAuthorizationCredentials"
type_synonym jwt_decode_t = "string \<Rightarrow> string \<Rightarrow> string option list \<Rightarrow> exception + payload"
type_synonym call_next_t = "request \<Rightarrow> exception + response"

text \<open>
  The class \<open>JWTMiddleware\<close> that \<open>create_jwt_middleware\<close> returns closes over the
  key that was read and over the configuration.
\<close>

record JWTMiddleware =
  PUBLIC_KEY :: string
  auth_config :: AuthenticationConfig

text \<open>
  Startup ends without a middleware either through \<open>sys.exit\<close> (the handler of
  \<open>FileNotFoundError\<close>) or through any other exception of the read, which nothing
  catches.
\<close>

datatype startup_failure =
    SystemExit string
  | Uncaught exception

definition create_jwt_middleware ::
  "open_read_t \<Rightarrow> AuthenticationConfig \<Rightarrow> (startup_failure + JWTMiddleware) \<times> event list" where
  "create_jwt_middleware open_read auth_config_in =
     (case open_read (public_key_path auth_config_in) of
        Inr contents \<Rightarrow>
          (Inr \<lparr>PUBLIC_KEY = contents, auth_config = auth_config_in\<rparr>,
           [OpenRead (public_key_path auth_config_in)])
      | Inl (FileNotFoundError exc) \<Rightarrow>
          (Inl (SystemExit (''Cannot find public key: '' @ exc)),
           [OpenRead (public_key_path auth_config_in)])
      | Inl exc \<Rightarrow>
          (Inl (Uncaught exc), [OpenRead (public_key_path auth_config_in)]))"

text \<open>
  \<open>_is_jwt_access_token_valid\<close>. The \<open>except Exception\<close> clause sets the payload to
  \<open>None\<close>; the result is \<open>payload is not None and "username" in payload\<close>.
\<close>

definition is_jwt_access_token_valid ::
  "jwt_decode_t \<Rightarrow> JWTMiddleware \<Rightarrow> string \<Rightarrow> (exception + bool) \<times> event list" where
  "is_jwt_access_token_valid jwt_decode self access_token =
     (let algorithms = [jwt_algorithm (auth_config self)];
          attempt = [LogInfo ''Checking if JWT access token is valid'',
                     JwtDecode access_token (PUBLIC_KEY self) algorithms];
          (payload, log) =
            (case jwt_decode access_token (PUBLIC_KEY self) algorithms of
               Inr p \<Rightarrow> (Some p, attempt)
             | Inl exc \<Rightarrow>
                 (None, attempt @ [LogException ''Error decoding JWT access token'']))
      in (Inr (case payload of
                 None \<Rightarrow> False
               | Some p \<Rightarrow> p ''username'' \<noteq> None),
          log))"

definition exempt_paths :: "string list" where
  "exempt_paths = [''/docs'', ''/openapi.json'']"

definition dispatch ::
  "security_t \<Rightarrow> jwt_decode_t \<Rightarrow> JWTMiddleware \<Rightarrow> request \<Rightarrow> call_next_t
     \<Rightarrow> (exception + response) \<times> event list" where
  "dispatch security jwt_decode self req call_next =
     (if url_path req \<notin> set exempt_paths then
        (case security req of
           Inl (HTTPException status_code detail) \<Rightarrow>
             (Inr (JSONResponse status_code (JObj [(''detail'', detail)])),
              [SecurityCall req])
         | Inl exc \<Rightarrow> (Inl exc, [SecurityCall req])
         | Inr creds \<Rightarrow>
             (case is_jwt_access_token_valid jwt_decode self (credentials creds) of
                (Inl exc, log) \<Rightarrow> (Inl exc, SecurityCall req # log)
              | (Inr valid, log) \<Rightarrow>
                  if \<not> valid then
                    (Inr (JSONResponse 403
                            (JObj [(''detail'', JStr ''Invalid token or expired token'')])),
                     SecurityCall req # log)
                  else
                    (call_next req, SecurityCall req # log @ [CallNext req])))
      else (call_next req, [CallNext req]))"

section \<open>Reading a trace\<close>

fun next_calls :: "event list \<Rightarrow> request list" where
  "next_calls [] = []"
| "next_calls (CallNext r # es) = r # next_calls es"
| "next_calls (e # es) = next_calls es"

fun security_calls :: "event list \<Rightarrow> request list" where
  "security_calls [] = []"
| "security_calls (SecurityCall r # es) = r # security_calls es"
| "security_calls (e # es) = security_calls es"

fun decode_calls :: "event list \<Rightarrow> (string \<times> string \<times> string option list) list" where
  "decode_calls [] = []"
| "decode_calls (JwtDecode t k a # es) = (t, k, a) # decode_calls es"
| "decode_calls (e # es) = decode_calls es"

fun file_reads :: "event list \<Rightarrow> string option list" where
  "file_reads [] = []"
| "file_reads (OpenRead p # es) = p # file_reads es"
| "file_reads (e # es) = file_reads es"

section \<open>Scenarios\<close>

text \<open>
  Concrete collaborators and inputs at which the theorems below are instantiated: a
  configuration and the middleware built from it, decoders that reject every token,
  accept with a username, or accept a payload whose username is null, an
  \<open>HTTPBearer\<close> that finds no credentials and one that finds a bearer token, a few
  requests, a downstream handler and two file systems.
\<close>

definition example_config :: AuthenticationConfig where
  "example_config =
     \<lparr>enabled = True, public_key_path = Some ''keys/jwt-key.pub'',
      jwt_algorithm = Some ''RS256''\<rparr>"

definition example_middleware :: JWTMiddleware where
  "example_middleware = \<lparr>PUBLIC_KEY = ''PUBLIC KEY'', auth_config = example_config\<rparr>"

definition decode_rejecting :: jwt_decode_t where
  "decode_rejecting token key algorithms =
     Inl (OtherException ''DecodeError: Not enough segments'')"

definition alice_payload :: payload where
  "alice_payload = [''username'' \<mapsto> JStr ''alice'']"

definition decode_accepting :: jwt_decode_t where
  "decode_accepting token key algorithms = Inr alice_payload"

definition null_username_payload :: payload where
  "null_username_payload = [''username'' \<mapsto> JNull]"

definition decode_null_username :: jwt_decode_t where
  "decode_null_username token key algorithms = Inr null_username_payload"

definition security_forbidden :: security_t where
  "security_forbidden req = Inl (HTTPException 403 (JStr ''Not authenticated''))"

definition bearer_credentials :: HTTPAuthorizationCredentials where
  "bearer_credentials = \<lparr>scheme = ''Bearer'', credentials = ''garbage''\<rparr>"

definition security_bearer :: security_t where
  "security_bearer req = Inr bearer_credentials"

definition data_request :: request where
  "data_request = \<lparr>url_path = ''/data'', headers = []\<rparr>"

definition docs_request :: request where
  "docs_request = \<lparr>url_path = ''/docs'', headers = []\<rparr>"

definition docs_slash_request :: request where
  "docs_slash_request = \<lparr>url_path = ''/docs/'', headers = []\<rparr>"

definition docs_index_request :: request where
  "docs_index_request = \<lparr>url_path = ''/docs/index.html'', headers = []\<rparr>"

definition openapi_slash_request :: request where
  "openapi_slash_request = \<lparr>url_path = ''/openapi.json/'', headers = []\<rparr>"

definition next_ok :: call_next_t where
  "next_ok req = Inr (Response 200 ''ok'')"

definition missing_file :: open_read_t where
  "missing_file path = Inl (FileNotFoundError ''[Errno 2] No such file or directory'')"

definition readable_file :: open_read_t where
  "readable_file path = Inr ''PUBLIC KEY''"

lemmas scenario_defs =
  example_config_def example_middleware_def decode_rejecting_def alice_payload_def
  decode_accepting_def null_username_payload_def decode_null_username_def
  security_forbidden_def bearer_credentials_def security_bearer_def data_request_def
  docs_request_def docs_slash_request_def docs_index_request_def
  openapi_slash_request_def next_ok_def missing_file_def readable_file_def

section \<open>The verifier\<close>

lemma valid_unfold:
  "is_jwt_access_token_valid jwt_decode self access_token =
     (case jwt_decode access_token (PUBLIC_KEY self) [jwt_algorithm (auth_config self)] of
        Inl exc \<Rightarrow>
          (Inr False,
           [LogInfo ''Checking if JWT access token is valid'',
            JwtDecode access_token (PUBLIC_KEY self) [jwt_algorithm (auth_config self)],
            LogException ''Error decoding JWT access token''])
      | Inr p \<Rightarrow>
          (Inr (p ''username'' \<noteq> None),
           [LogInfo ''Checking if JWT access token is valid'',
            JwtDecode access_token (PUBLIC_KEY self) [jwt_algorithm (auth_config self)]]))"
  by (simp add: is_jwt_access_token_valid_def Let_def split: sum.splits)

lemma valid_decode_calls:
  "decode_calls (snd (is_jwt_access_token_valid jwt_decode self access_token)) =
     [(access_token, PUBLIC_KEY self, [jwt_algorithm (auth_config self)])]"
  by (simp add: valid_unfold split: sum.splits)

lemma valid_no_other_calls:
  "next_calls (snd (is_jwt_access_token_valid jwt_decode self access_token)) = []"
  "security_calls (snd (is_jwt_access_token_valid jwt_decode self access_token)) = []"
  "file_reads (snd (is_jwt_access_token_valid jwt_decode self access_token)) = []"
  by (simp_all add: valid_unfold split: sum.splits)

lemma valid_enabled_irrelevant:
  "is_jwt_access_token_valid jwt_decode
       (self\<lparr>auth_config := (auth_config self)\<lparr>enabled := b\<rparr>\<rparr>) access_token =
     is_jwt_access_token_valid jwt_decode self access_token"
  by (simp add: is_jwt_access_token_valid_def)

text \<open>
  C1, as the spec states it, fails: a token that decodes to a payload whose
  \<open>username\<close> is null is accepted, because the code tests for the key \<open>username\<close>
  and not for its value.
\<close>

theorem null_username_accepted:
  "decode_null_username ''token'' (PUBLIC_KEY example_middleware)
       [jwt_algorithm (auth_config example_middleware)] = Inr null_username_payload
   \<and> null_username_payload ''username'' = Some JNull
   \<and> fst (is_jwt_access_token_valid decode_null_username example_middleware ''token'')
       = Inr True"
  by (simp add: valid_unfold scenario_defs)

text \<open>
  C1, amended: \<open>_is_jwt_access_token_valid\<close> returns true exactly when
  \<open>jwt.decode\<close>, given the token, the configured public key and the configured
  algorithm as the only one allowed, returns a payload (so that the signature, the
  expiry and the algorithm passed its checks) and that payload has the key
  \<open>username\<close>, whatever its value; in every other case it returns false.
\<close>

theorem valid_iff_decoded_with_username_key:
  "(fst (is_jwt_access_token_valid jwt_decode self access_token) = Inr True \<longleftrightarrow>
      (\<exists>p. jwt_decode access_token (PUBLIC_KEY self) [jwt_algorithm (auth_config self)]
             = Inr p \<and> ''username'' \<in> dom p))
   \<and> (fst (is_jwt_access_token_valid jwt_decode self access_token) = Inr False \<longleftrightarrow>
      \<not> (\<exists>p. jwt_decode access_token (PUBLIC_KEY self) [jwt_algorithm (auth_config self)]
             = Inr p \<and> ''username'' \<in> dom p))"
  by (auto simp: valid_unfold split: sum.splits)

theorem valid_iff_decoded_with_username_key_witness:
  "fst (is_jwt_access_token_valid decode_accepting example_middleware ''token'') = Inr True
   \<and> fst (is_jwt_access_token_valid decode_rejecting example_middleware ''token'')
       = Inr False"
proof -
  have yes: "\<exists>p. decode_accepting ''token'' (PUBLIC_KEY example_middleware)
                   [jwt_algorithm (auth_config example_middleware)] = Inr p
                 \<and> ''username'' \<in> dom p"
    by (simp add: decode_accepting_def alice_payload_def)
  have no: "\<not> (\<exists>p. decode_rejecting ''token'' (PUBLIC_KEY example_middleware)
                   [jwt_algorithm (auth_config example_middleware)] = Inr p
                 \<and> ''username'' \<in> dom p)"
    by (simp add: decode_rejecting_def)
  show ?thesis
    using yes no
      valid_iff_decoded_with_username_key
        [of decode_accepting example_middleware "''token''"]
      valid_iff_decoded_with_username_key
        [of decode_rejecting example_middleware "''token''"]
    by blast
qed

text \<open>
  C4: for every token string \<open>_is_jwt_access_token_valid\<close> returns a boolean and
  raises nothing, and whenever \<open>jwt.decode\<close> raises, the boolean is false.
\<close>

theorem valid_never_raises:
  "(\<exists>b. fst (is_jwt_access_token_valid jwt_decode self access_token) = Inr b)
   \<and> (\<forall>exc. jwt_decode access_token (PUBLIC_KEY self) [jwt_algorithm (auth_config self)]
               = Inl exc
          \<longrightarrow> fst (is_jwt_access_token_valid jwt_decode self access_token) = Inr False)"
  by (auto simp: valid_unfold split: sum.splits)

theorem valid_never_raises_witness:
  "decode_rejecting [] (PUBLIC_KEY example_middleware)
       [jwt_algorithm (auth_config example_middleware)]
     = Inl (OtherException ''DecodeError: Not enough segments'')
   \<and> fst (is_jwt_access_token_valid decode_rejecting example_middleware []) = Inr False"
proof -
  have raised: "decode_rejecting [] (PUBLIC_KEY example_middleware)
                    [jwt_algorithm (auth_config example_middleware)]
                  = Inl (OtherException ''DecodeError: Not enough segments'')"
    by (simp add: decode_rejecting_def)
  show ?thesis
    using raised valid_never_raises [of decode_rejecting example_middleware "[]"]
    by blast
qed

section \<open>The gate\<close>

lemma dispatch_exempt:
  "url_path req \<in> set exempt_paths \<Longrightarrow>
   dispatch security jwt_decode self req call_next = (call_next req, [CallNext req])"
  by (simp add: dispatch_def)

lemma dispatch_extraction_failed:
  "url_path req \<notin> set exempt_paths \<Longrightarrow>
   security req = Inl (HTTPException status_code detail) \<Longrightarrow>
   dispatch security jwt_decode self req call_next =
     (Inr (JSONResponse status_code (JObj [(''detail'', detail)])), [SecurityCall req])"
  by (simp add: dispatch_def)

lemma dispatch_extracted:
  "url_path req \<notin> set exempt_paths \<Longrightarrow> security req = Inr creds \<Longrightarrow>
   dispatch security jwt_decode self req call_next =
     (case is_jwt_access_token_valid jwt_decode self (credentials creds) of
        (Inl exc, log) \<Rightarrow> (Inl exc, SecurityCall req # log)
      | (Inr valid, log) \<Rightarrow>
          if \<not> valid then
            (Inr (JSONResponse 403
                    (JObj [(''detail'', JStr ''Invalid token or expired token'')])),
             SecurityCall req # log)
          else (call_next req, SecurityCall req # log @ [CallNext req]))"
  by (simp add: dispatch_def)

lemma next_calls_append: "next_calls (xs @ ys) = next_calls xs @ next_calls ys"
  by (induction xs rule: next_calls.induct) simp_all

lemma decode_calls_append: "decode_calls (xs @ ys) = decode_calls xs @ decode_calls ys"
  by (induction xs rule: decode_calls.induct) simp_all

lemma file_reads_append: "file_reads (xs @ ys) = file_reads xs @ file_reads ys"
  by (induction xs rule: file_reads.induct) simp_all

lemma security_calls_append:
  "security_calls (xs @ ys) = security_calls xs @ security_calls ys"
  by (induction xs rule: security_calls.induct) simp_all

lemma dispatch_file_reads:
  "file_reads (snd (dispatch security jwt_decode self req call_next)) = []"
  by (auto simp: dispatch_def valid_unfold split: sum.splits exception.splits)

lemma dispatch_decode_key:
  "(t, k, a) \<in> set (decode_calls (snd (dispatch security jwt_decode self req call_next)))
   \<Longrightarrow> k = PUBLIC_KEY self"
  by (auto simp: dispatch_def valid_unfold split: sum.splits exception.splits if_splits)

lemma dispatch_enabled_irrelevant:
  "dispatch security jwt_decode
       (self\<lparr>auth_config := (auth_config self)\<lparr>enabled := b\<rparr>\<rparr>) req call_next =
     dispatch security jwt_decode self req call_next"
  by (simp add: dispatch_def valid_enabled_irrelevant cong: sum.case_cong)

text \<open>
  C2, as the spec states it, fails: the status of the rejection is not fixed at 401.
  An \<open>HTTPBearer\<close> that signals the missing header with status 403 (as FastAPI did
  before it moved to 401) yields a 403 response, since the code copies
  \<open>exc.status_code\<close>.
\<close>

theorem extraction_failure_status_not_fixed:
  "url_path data_request \<notin> set exempt_paths
   \<and> security_forbidden data_request
       = Inl (HTTPException 403 (JStr ''Not authenticated''))
   \<and> fst (dispatch security_forbidden decode_accepting example_middleware
            data_request next_ok)
       = Inr (JSONResponse 403 (JObj [(''detail'', JStr ''Not authenticated'')]))
   \<and> fst (dispatch security_forbidden decode_accepting example_middleware
            data_request next_ok)
       \<noteq> Inr (JSONResponse 401 (JObj [(''detail'', JStr ''Not authenticated'')]))"
  by (simp add: dispatch_def exempt_paths_def scenario_defs)

text \<open>
  C2, amended: for every request to a non-exempt path whose credential extraction
  fails with an \<open>HTTPException\<close>, \<open>dispatch\<close> returns a JSON response with the status
  code that the exception carries and the body \<open>{"detail": <the exception's detail>}\<close>;
  the token is not decoded and the next handler is never invoked.
\<close>

theorem extraction_failure_rejected:
  assumes "url_path req \<notin> set exempt_paths"
    and "security req = Inl (HTTPException status_code detail)"
  shows "fst (dispatch security jwt_decode self req call_next)
           = Inr (JSONResponse status_code (JObj [(''detail'', detail)]))
         \<and> next_calls (snd (dispatch security jwt_decode self req call_next)) = []
         \<and> decode_calls (snd (dispatch security jwt_decode self req call_next)) = []"
  using assms by (simp add: dispatch_extraction_failed)

theorem extraction_failure_rejected_witness:
  "url_path data_request \<notin> set exempt_paths
   \<and> security_forbidden data_request
       = Inl (HTTPException 403 (JStr ''Not authenticated''))
   \<and> fst (dispatch security_forbidden decode_accepting example_middleware
            data_request next_ok)
       = Inr (JSONResponse 403 (JObj [(''detail'', JStr ''Not authenticated'')]))
   \<and> next_calls (snd (dispatch security_forbidden decode_accepting example_middleware
                        data_request next_ok)) = []"
proof -
  have path: "url_path data_request \<notin> set exempt_paths"
    by (simp add: data_request_def exempt_paths_def)
  have raised: "security_forbidden data_request
                  = Inl (HTTPException 403 (JStr ''Not authenticated''))"
    by (simp add: security_forbidden_def)
  show ?thesis
    using path raised
      extraction_failure_rejected
        [where req = data_request and security = security_forbidden
           and jwt_decode = decode_accepting and self = example_middleware
           and call_next = next_ok, OF path raised]
    by simp
qed

text \<open>
  C3: for every request to a non-exempt path with an extractable bearer credential
  for which the verifier returns false, \<open>dispatch\<close> returns status 403 with the body
  \<open>{"detail": "Invalid token or expired token"}\<close> and does not invoke the next
  handler.
\<close>

theorem invalid_token_forbidden:
  assumes "url_path req \<notin> set exempt_paths"
    and "security req = Inr creds"
    and "fst (is_jwt_access_token_valid jwt_decode self (credentials creds)) = Inr False"
  shows "fst (dispatch security jwt_decode self req call_next)
           = Inr (JSONResponse 403
                    (JObj [(''detail'', JStr ''Invalid token or expired token'')]))
         \<and> next_calls (snd (dispatch security jwt_decode self req call_next)) = []"
proof -
  obtain log where v:
    "is_jwt_access_token_valid jwt_decode self (credentials creds) = (Inr False, log)"
    using assms(3) by (cases "is_jwt_access_token_valid jwt_decode self (credentials creds)") simp
  have "next_calls log = []"
    using valid_no_other_calls(1) [of jwt_decode self "credentials creds"] v by simp
  then show ?thesis
    using assms(1,2) by (simp add: dispatch_extracted v)
qed

theorem invalid_token_forbidden_witness:
  "url_path data_request \<notin> set exempt_paths
   \<and> security_bearer data_request = Inr bearer_credentials
   \<and> fst (is_jwt_access_token_valid decode_rejecting example_middleware
            (credentials bearer_credentials)) = Inr False
   \<and> fst (dispatch security_bearer decode_rejecting example_middleware data_request next_ok)
       = Inr (JSONResponse 403
                (JObj [(''detail'', JStr ''Invalid token or expired token'')]))
   \<and> next_calls (snd (dispatch security_bearer decode_rejecting example_middleware
                        data_request next_ok)) = []"
proof -
  have path: "url_path data_request \<notin> set exempt_paths"
    by (simp add: data_request_def exempt_paths_def)
  have extracted: "security_bearer data_request = Inr bearer_credentials"
    by (simp add: security_bearer_def)
  have invalid: "fst (is_jwt_access_token_valid decode_rejecting example_middleware
                        (credentials bearer_credentials)) = Inr False"
    by (simp add: valid_unfold decode_rejecting_def)
  show ?thesis
    using path extracted invalid
      invalid_token_forbidden
        [where req = data_request and security = security_bearer
           and jwt_decode = decode_rejecting and self = example_middleware
           and call_next = next_ok, OF path extracted invalid]
    by simp
qed

text \<open>
  C5: for every request whose path is \<open>/docs\<close> or \<open>/openapi.json\<close>, \<open>dispatch\<close>
  extracts no credential and decodes no token; all it does is invoke the next handler
  on the request, once, and return its result unchanged, whatever the headers are.
\<close>

theorem exempt_path_bypasses_authentication:
  assumes "url_path req = ''/docs'' \<or> url_path req = ''/openapi.json''"
  shows "dispatch security jwt_decode self req call_next = (call_next req, [CallNext req])
         \<and> security_calls (snd (dispatch security jwt_decode self req call_next)) = []
         \<and> decode_calls (snd (dispatch security jwt_decode self req call_next)) = []
         \<and> next_calls (snd (dispatch security jwt_decode self req call_next)) = [req]"
proof -
  have "url_path req \<in> set exempt_paths"
    using assms by (auto simp: exempt_paths_def)
  then show ?thesis
    by (simp add: dispatch_exempt)
qed

theorem exempt_path_bypasses_authentication_witness:
  "(url_path docs_request = ''/docs'' \<or> url_path docs_request = ''/openapi.json'')
   \<and> headers docs_request = []
   \<and> dispatch security_forbidden decode_rejecting example_middleware docs_request next_ok
       = (Inr (Response 200 ''ok''), [CallNext docs_request])"
proof -
  have path: "url_path docs_request = ''/docs'' \<or> url_path docs_request = ''/openapi.json''"
    by (simp add: docs_request_def)
  have no_header: "headers docs_request = []"
    by (simp add: docs_request_def)
  show ?thesis
    using path no_header
      exempt_path_bypasses_authentication
        [OF path, of security_forbidden decode_rejecting example_middleware next_ok]
    by (simp add: next_ok_def)
qed

text \<open>
  C6: for every request to a non-exempt path with a bearer credential for which the
  verifier returns true, \<open>dispatch\<close> invokes the next handler exactly once, on that
  request, and returns its result unmodified.
\<close>

theorem valid_token_forwarded:
  assumes "url_path req \<notin> set exempt_paths"
    and "security req = Inr creds"
    and "fst (is_jwt_access_token_valid jwt_decode self (credentials creds)) = Inr True"
  shows "fst (dispatch security jwt_decode self req call_next) = call_next req
         \<and> next_calls (snd (dispatch security jwt_decode self req call_next)) = [req]"
proof -
  obtain log where v:
    "is_jwt_access_token_valid jwt_decode self (credentials creds) = (Inr True, log)"
    using assms(3) by (cases "is_jwt_access_token_valid jwt_decode self (credentials creds)") simp
  have "next_calls log = []"
    using valid_no_other_calls(1) [of jwt_decode self "credentials creds"] v by simp
  then show ?thesis
    using assms(1,2) by (simp add: dispatch_extracted v next_calls_append)
qed

theorem valid_token_forwarded_witness:
  "url_path data_request \<notin> set exempt_paths
   \<and> security_bearer data_request = Inr bearer_credentials
   \<and> fst (is_jwt_access_token_valid decode_accepting example_middleware
            (credentials bearer_credentials)) = Inr True
   \<and> fst (dispatch security_bearer decode_accepting example_middleware data_request next_ok)
       = Inr (Response 200 ''ok'')
   \<and> next_calls (snd (dispatch security_bearer decode_accepting example_middleware
                        data_request next_ok)) = [data_request]"
proof -
  have path: "url_path data_request \<notin> set exempt_paths"
    by (simp add: data_request_def exempt_paths_def)
  have extracted: "security_bearer data_request = Inr bearer_credentials"
    by (simp add: security_bearer_def)
  have valid: "fst (is_jwt_access_token_valid decode_accepting example_middleware
                      (credentials bearer_credentials)) = Inr True"
    by (simp add: valid_unfold decode_accepting_def alice_payload_def)
  show ?thesis
    using path extracted valid
      valid_token_forwarded
        [where req = data_request and security = security_bearer
           and jwt_decode = decode_accepting and self = example_middleware
           and call_next = next_ok, OF path extracted valid]
    by (simp add: next_ok_def)
qed

text \<open>
  C10: exempt-path matching is equality on the whole path. For every request whose
  path is neither \<open>/docs\<close> nor \<open>/openapi.json\<close> (so also for \<open>/docs/\<close>,
  \<open>/docs/index.html\<close> and \<open>/openapi.json/\<close>), \<open>dispatch\<close> first attempts credential
  extraction on the request, and whenever that yields credentials it decodes exactly
  them with the configured key and algorithm; the next handler is reached only when
  the verifier accepted them.
\<close>

theorem non_exempt_path_authenticated:
  assumes "url_path req \<noteq> ''/docs''" and "url_path req \<noteq> ''/openapi.json''"
  shows "security_calls (snd (dispatch security jwt_decode self req call_next)) = [req]
         \<and> (\<forall>creds. security req = Inr creds \<longrightarrow>
               decode_calls (snd (dispatch security jwt_decode self req call_next))
                 = [(credentials creds, PUBLIC_KEY self, [jwt_algorithm (auth_config self)])]
               \<and> (next_calls (snd (dispatch security jwt_decode self req call_next)) \<noteq> []
                    \<longrightarrow> fst (is_jwt_access_token_valid jwt_decode self (credentials creds))
                          = Inr True))
         \<and> (\<forall>exc. security req = Inl exc \<longrightarrow>
               next_calls (snd (dispatch security jwt_decode self req call_next)) = [])"
  using assms
  by (auto simp: dispatch_def exempt_paths_def valid_unfold
      split: sum.splits exception.splits)

theorem non_exempt_path_authenticated_witness:
  "security_calls (snd (dispatch security_forbidden decode_accepting example_middleware
                          docs_slash_request next_ok)) = [docs_slash_request]
   \<and> security_calls (snd (dispatch security_forbidden decode_accepting example_middleware
                          docs_index_request next_ok)) = [docs_index_request]
   \<and> security_calls (snd (dispatch security_bearer decode_rejecting example_middleware
                          openapi_slash_request next_ok)) = [openapi_slash_request]
   \<and> decode_calls (snd (dispatch security_bearer decode_rejecting example_middleware
                          openapi_slash_request next_ok))
       = [(''garbage'', ''PUBLIC KEY'', [Some ''RS256''])]
   \<and> next_calls (snd (dispatch security_forbidden decode_accepting example_middleware
                        docs_slash_request next_ok)) = []"
proof -
  have p1: "url_path docs_slash_request \<noteq> ''/docs''"
    and p2: "url_path docs_slash_request \<noteq> ''/openapi.json''"
    by (simp_all add: docs_slash_request_def)
  have q1: "url_path docs_index_request \<noteq> ''/docs''"
    and q2: "url_path docs_index_request \<noteq> ''/openapi.json''"
    by (simp_all add: docs_index_request_def)
  have r1: "url_path openapi_slash_request \<noteq> ''/docs''"
    and r2: "url_path openapi_slash_request \<noteq> ''/openapi.json''"
    by (simp_all add: openapi_slash_request_def)
  have extracted: "security_bearer openapi_slash_request = Inr bearer_credentials"
    by (simp add: security_bearer_def)
  have failed: "security_forbidden docs_slash_request
                  = Inl (HTTPException 403 (JStr ''Not authenticated''))"
    by (simp add: security_forbidden_def)
  have creds: "credentials bearer_credentials = ''garbage''"
    by (simp add: bearer_credentials_def)
  have key: "PUBLIC_KEY example_middleware = ''PUBLIC KEY''"
    and alg: "jwt_algorithm (auth_config example_middleware) = Some ''RS256''"
    by (simp_all add: example_middleware_def example_config_def)
  show ?thesis
    using extracted failed creds key alg
      non_exempt_path_authenticated
        [OF p1 p2, of security_forbidden decode_accepting example_middleware next_ok]
      non_exempt_path_authenticated
        [OF q1 q2, of security_forbidden decode_accepting example_middleware next_ok]
      non_exempt_path_authenticated
        [OF r1 r2, of security_bearer decode_rejecting example_middleware next_ok]
    by simp
qed

section \<open>Configuration\<close>

lemma init_unfold:
  "AuthenticationConfig_init enabled_in p a =
     (case enabled_in of
        None \<Rightarrow> Inl [''enabled: Input should be a valid boolean'']
      | Some b \<Rightarrow>
          if b \<and> p = None \<and> a = None then
            Inl [''public_key_path: Value error, Field required'',
                 ''jwt_algorithm: Value error, Field required'']
          else if b \<and> p = None then Inl [''public_key_path: Value error, Field required'']
          else if b \<and> a = None then Inl [''jwt_algorithm: Value error, Field required'']
          else Inr \<lparr>enabled = b, public_key_path = p, jwt_algorithm = a\<rparr>)"
  by (cases enabled_in; cases p; cases a)
    (simp_all add: AuthenticationConfig_init_def validate_optional_fields_def Let_def)

text \<open>
  C7, as the spec states it, fails: with \<open>enabled\<close> true and both optional fields
  given as empty strings, construction succeeds, and the configuration it returns
  has \<open>enabled\<close> true and both fields empty. The validator rejects only \<open>None\<close>.
\<close>

theorem empty_fields_accepted:
  "AuthenticationConfig_init (Some True) (Some []) (Some [])
     = Inr \<lparr>enabled = True, public_key_path = Some [], jwt_algorithm = Some []\<rparr>"
  by (simp add: init_unfold)

text \<open>
  C7, amended: construction of \<open>AuthenticationConfig\<close> fails whenever \<open>enabled\<close> is
  true and \<open>public_key_path\<close> or \<open>jwt_algorithm\<close> is \<open>None\<close> (no value provided);
  every successfully constructed configuration with \<open>enabled\<close> true has both fields
  different from \<open>None\<close>; and with \<open>enabled\<close> true any two strings, the empty one
  included, are accepted as they are.
\<close>

theorem enabled_requires_fields_present:
  "(enabled_in = Some True \<and> (p = None \<or> a = None)
      \<longrightarrow> (\<exists>errs. AuthenticationConfig_init enabled_in p a = Inl errs))
   \<and> (\<forall>c. AuthenticationConfig_init enabled_in p a = Inr c \<and> enabled c
        \<longrightarrow> public_key_path c \<noteq> None \<and> jwt_algorithm c \<noteq> None)
   \<and> (\<forall>kp alg. AuthenticationConfig_init (Some True) (Some kp) (Some alg)
        = Inr \<lparr>enabled = True, public_key_path = Some kp, jwt_algorithm = Some alg\<rparr>)"
  by (auto simp: init_unfold split: option.splits if_splits)

theorem enabled_requires_fields_present_witness:
  "(\<exists>errs. AuthenticationConfig_init (Some True) None (Some ''RS256'') = Inl errs)
   \<and> AuthenticationConfig_init (Some True) (Some ''keys/jwt-key.pub'') (Some ''RS256'')
       = Inr example_config
   \<and> enabled example_config
   \<and> public_key_path example_config \<noteq> None
   \<and> jwt_algorithm example_config \<noteq> None"
proof -
  have built: "AuthenticationConfig_init (Some True) (Some ''keys/jwt-key.pub'')
                 (Some ''RS256'') = Inr example_config"
    by (simp add: init_unfold example_config_def)
  have on: "enabled example_config"
    by (simp add: example_config_def)
  have absent: "Some True = Some True \<and> ((None :: string option) = None \<or> Some ''RS256'' = None)"
    by simp
  show ?thesis
    using built on absent
      enabled_requires_fields_present [of "Some True" None "Some ''RS256''"]
      enabled_requires_fields_present
        [of "Some True" "Some ''keys/jwt-key.pub''" "Some ''RS256''"]
    by blast
qed

section \<open>Startup\<close>

lemma create_unfold:
  "create_jwt_middleware open_read c =
     (case open_read (public_key_path c) of
        Inr contents \<Rightarrow> Inr \<lparr>PUBLIC_KEY = contents, auth_config = c\<rparr>
      | Inl (FileNotFoundError exc) \<Rightarrow> Inl (SystemExit (''Cannot find public key: '' @ exc))
      | Inl (HTTPException s d) \<Rightarrow> Inl (Uncaught (HTTPException s d))
      | Inl (OtherException m) \<Rightarrow> Inl (Uncaught (OtherException m)),
      [OpenRead (public_key_path c)])"
  by (simp add: create_jwt_middleware_def split: sum.splits exception.splits)

lemma create_enabled_irrelevant:
  "create_jwt_middleware open_read (c\<lparr>enabled := b\<rparr>) =
     (map_sum id (\<lambda>mw. mw\<lparr>auth_config := (auth_config mw)\<lparr>enabled := b\<rparr>\<rparr>)
        (fst (create_jwt_middleware open_read c)),
      snd (create_jwt_middleware open_read c))"
  by (simp add: create_unfold split: sum.splits exception.splits)

lemma valid_verdict:
  "fst (is_jwt_access_token_valid jwt_decode self access_token) =
     Inr (case jwt_decode access_token (PUBLIC_KEY self) [jwt_algorithm (auth_config self)] of
            Inl exc \<Rightarrow> False
          | Inr p \<Rightarrow> p ''username'' \<noteq> None)"
  by (simp add: valid_unfold split: sum.splits)

lemma dispatch_decodes_extracted:
  assumes "url_path req \<notin> set exempt_paths" and "security req = Inr creds"
  shows "decode_calls (snd (dispatch security jwt_decode self req call_next))
           = [(credentials creds, PUBLIC_KEY self, [jwt_algorithm (auth_config self)])]"
  using assms
  by (simp add: dispatch_extracted valid_unfold decode_calls_append split: sum.splits)

lemma dispatch_forwards_only_decoded:
  assumes "url_path req \<notin> set exempt_paths" and "security req = Inr creds"
    and "next_calls (snd (dispatch security jwt_decode self req call_next)) \<noteq> []"
  shows "\<exists>p. jwt_decode (credentials creds) (PUBLIC_KEY self)
                [jwt_algorithm (auth_config self)] = Inr p
             \<and> p ''username'' \<noteq> None"
  using assms
  by (simp add: dispatch_extracted valid_unfold next_calls_append
      split: sum.splits if_splits)

text \<open>
  C8: if reading the configured public-key file fails, \<open>create_jwt_middleware\<close>
  produces no middleware: it ends in \<open>sys.exit\<close> when the file is not found and in
  the uncaught exception otherwise. The file is read exactly once, at construction.
  When the read succeeds, the middleware holds the contents as its key, and serving a
  request never reads the file again. Every verification uses those contents: the
  verifier calls \<open>jwt.decode\<close> exactly once, on the token it is given, with the
  loaded contents as the key and the configured algorithm, and its verdict is the
  outcome of that call; and on a non-exempt path with extracted credentials the gate
  makes exactly that call on the credentials and forwards the request only when it
  returned a payload with a \<open>username\<close>.
\<close>

theorem key_loaded_once_or_startup_fails:
  "(\<forall>exc. open_read (public_key_path c) = Inl exc \<longrightarrow>
      (\<exists>failure. fst (create_jwt_middleware open_read c) = Inl failure))
   \<and> (\<forall>msg. open_read (public_key_path c) = Inl (FileNotFoundError msg) \<longrightarrow>
      fst (create_jwt_middleware open_read c)
        = Inl (SystemExit (''Cannot find public key: '' @ msg)))
   \<and> file_reads (snd (create_jwt_middleware open_read c)) = [public_key_path c]
   \<and> (\<forall>contents. open_read (public_key_path c) = Inr contents \<longrightarrow>
        (\<exists>mw. fst (create_jwt_middleware open_read c) = Inr mw
           \<and> PUBLIC_KEY mw = contents
           \<and> (\<forall>security jwt_decode req call_next.
                file_reads (snd (dispatch security jwt_decode mw req call_next)) = []
                \<and> (\<forall>(t, k, a) \<in> set (decode_calls
                                          (snd (dispatch security jwt_decode mw req call_next))).
                      k = contents))
           \<and> (\<forall>jwt_decode access_token.
                decode_calls (snd (is_jwt_access_token_valid jwt_decode mw access_token))
                  = [(access_token, contents, [jwt_algorithm c])]
                \<and> fst (is_jwt_access_token_valid jwt_decode mw access_token)
                  = Inr (case jwt_decode access_token contents [jwt_algorithm c] of
                           Inl exc \<Rightarrow> False
                         | Inr p \<Rightarrow> p ''username'' \<noteq> None))
           \<and> (\<forall>security jwt_decode req call_next creds.
                url_path req \<notin> set exempt_paths \<and> security req = Inr creds \<longrightarrow>
                  decode_calls (snd (dispatch security jwt_decode mw req call_next))
                    = [(credentials creds, contents, [jwt_algorithm c])]
                  \<and> (next_calls (snd (dispatch security jwt_decode mw req call_next)) \<noteq> []
                       \<longrightarrow> (\<exists>p. jwt_decode (credentials creds) contents [jwt_algorithm c]
                                    = Inr p
                                  \<and> p ''username'' \<noteq> None)))))"
proof -
  have reads: "file_reads (snd (create_jwt_middleware open_read c)) = [public_key_path c]"
    by (simp add: create_unfold)
  have failing: "\<exists>failure. fst (create_jwt_middleware open_read c) = Inl failure"
    if "open_read (public_key_path c) = Inl exc" for exc
    using that by (cases exc) (simp_all add: create_unfold)
  have missing: "fst (create_jwt_middleware open_read c)
                   = Inl (SystemExit (''Cannot find public key: '' @ msg))"
    if "open_read (public_key_path c) = Inl (FileNotFoundError msg)" for msg
    using that by (simp add: create_unfold)
  have readable: "\<exists>mw. fst (create_jwt_middleware open_read c) = Inr mw
           \<and> PUBLIC_KEY mw = contents
           \<and> (\<forall>security jwt_decode req call_next.
                file_reads (snd (dispatch security jwt_decode mw req call_next)) = []
                \<and> (\<forall>(t, k, a) \<in> set (decode_calls
                                          (snd (dispatch security jwt_decode mw req call_next))).
                      k = contents))
           \<and> (\<forall>jwt_decode access_token.
                decode_calls (snd (is_jwt_access_token_valid jwt_decode mw access_token))
                  = [(access_token, contents, [jwt_algorithm c])]
                \<and> fst (is_jwt_access_token_valid jwt_decode mw access_token)
                  = Inr (case jwt_decode access_token contents [jwt_algorithm c] of
                           Inl exc \<Rightarrow> False
                         | Inr p \<Rightarrow> p ''username'' \<noteq> None))
           \<and> (\<forall>security jwt_decode req call_next creds.
                url_path req \<notin> set exempt_paths \<and> security req = Inr creds \<longrightarrow>
                  decode_calls (snd (dispatch security jwt_decode mw req call_next))
                    = [(credentials creds, contents, [jwt_algorithm c])]
                  \<and> (next_calls (snd (dispatch security jwt_decode mw req call_next)) \<noteq> []
                       \<longrightarrow> (\<exists>p. jwt_decode (credentials creds) contents [jwt_algorithm c]
                                    = Inr p
                                  \<and> p ''username'' \<noteq> None)))"
    if "open_read (public_key_path c) = Inr contents" for contents
  proof -
    define mw where "mw = \<lparr>PUBLIC_KEY = contents, auth_config = c\<rparr>"
    have key: "PUBLIC_KEY mw = contents" and cfg: "auth_config mw = c"
      by (simp_all add: mw_def)
    have built: "fst (create_jwt_middleware open_read c) = Inr mw"
      using that by (simp add: create_unfold mw_def)
    have serving: "\<forall>security jwt_decode req call_next.
                file_reads (snd (dispatch security jwt_decode mw req call_next)) = []
                \<and> (\<forall>(t, k, a) \<in> set (decode_calls
                                          (snd (dispatch security jwt_decode mw req call_next))).
                      k = contents)"
    proof (intro allI conjI)
      fix security jwt_decode req call_next
      show "file_reads (snd (dispatch security jwt_decode mw req call_next)) = []"
        by (rule dispatch_file_reads)
      show "\<forall>(t, k, a) \<in> set (decode_calls
                                (snd (dispatch security jwt_decode mw req call_next))).
              k = contents"
        using dispatch_decode_key [of _ _ _ security jwt_decode mw req call_next] key
        by auto
    qed
    have verifying: "\<forall>jwt_decode access_token.
                decode_calls (snd (is_jwt_access_token_valid jwt_decode mw access_token))
                  = [(access_token, contents, [jwt_algorithm c])]
                \<and> fst (is_jwt_access_token_valid jwt_decode mw access_token)
                  = Inr (case jwt_decode access_token contents [jwt_algorithm c] of
                           Inl exc \<Rightarrow> False
                         | Inr p \<Rightarrow> p ''username'' \<noteq> None)"
      by (simp add: valid_decode_calls valid_verdict key cfg)
    have gating: "\<forall>security jwt_decode req call_next creds.
                url_path req \<notin> set exempt_paths \<and> security req = Inr creds \<longrightarrow>
                  decode_calls (snd (dispatch security jwt_decode mw req call_next))
                    = [(credentials creds, contents, [jwt_algorithm c])]
                  \<and> (next_calls (snd (dispatch security jwt_decode mw req call_next)) \<noteq> []
                       \<longrightarrow> (\<exists>p. jwt_decode (credentials creds) contents [jwt_algorithm c]
                                    = Inr p
                                  \<and> p ''username'' \<noteq> None))"
    proof (intro allI impI conjI)
      fix security :: security_t and jwt_decode :: jwt_decode_t and req :: request
        and call_next :: call_next_t and creds :: HTTPAuthorizationCredentials
      assume non_exempt: "url_path req \<notin> set exempt_paths \<and> security req = Inr creds"
      then have path: "url_path req \<notin> set exempt_paths"
        and extracted: "security req = Inr creds"
        by simp_all
      show "decode_calls (snd (dispatch security jwt_decode mw req call_next))
              = [(credentials creds, contents, [jwt_algorithm c])]"
        using dispatch_decodes_extracted
          [where req = req and security = security and creds = creds
             and jwt_decode = jwt_decode and self = mw and call_next = call_next,
           OF path extracted]
        by (simp add: key cfg)
      assume "next_calls (snd (dispatch security jwt_decode mw req call_next)) \<noteq> []"
      then show "\<exists>p. jwt_decode (credentials creds) contents [jwt_algorithm c] = Inr p
                     \<and> p ''username'' \<noteq> None"
        using dispatch_forwards_only_decoded
          [where req = req and security = security and creds = creds
             and jwt_decode = jwt_decode and self = mw and call_next = call_next,
           OF path extracted]
        by (simp add: key cfg)
    qed
    show ?thesis
      by (rule exI [of _ mw])
        (rule conjI [OF built conjI [OF key conjI [OF serving conjI [OF verifying gating]]]])
  qed
  have no_middleware:
    "\<forall>exc. open_read (public_key_path c) = Inl exc \<longrightarrow>
       (\<exists>failure. fst (create_jwt_middleware open_read c) = Inl failure)"
    using failing by (intro allI impI)
  have exits:
    "\<forall>msg. open_read (public_key_path c) = Inl (FileNotFoundError msg) \<longrightarrow>
       fst (create_jwt_middleware open_read c)
         = Inl (SystemExit (''Cannot find public key: '' @ msg))"
    using missing by (intro allI impI)
  show ?thesis
    apply (rule conjI [OF no_middleware conjI [OF exits conjI [OF reads]]])
    apply (intro allI impI)
    apply (erule readable)
    done
qed

theorem key_loaded_once_or_startup_fails_witness:
  "missing_file (public_key_path example_config)
     = Inl (FileNotFoundError ''[Errno 2] No such file or directory'')
   \<and> fst (create_jwt_middleware missing_file example_config)
       = Inl (SystemExit
                (''Cannot find public key: '' @ ''[Errno 2] No such file or directory''))
   \<and> readable_file (public_key_path example_config) = Inr ''PUBLIC KEY''
   \<and> url_path data_request \<notin> set exempt_paths
   \<and> security_bearer data_request = Inr bearer_credentials
   \<and> (\<exists>mw. fst (create_jwt_middleware readable_file example_config) = Inr mw
          \<and> PUBLIC_KEY mw = ''PUBLIC KEY''
          \<and> file_reads (snd (dispatch security_bearer decode_accepting mw
                               data_request next_ok)) = []
          \<and> decode_calls (snd (is_jwt_access_token_valid decode_accepting mw ''token''))
              = [(''token'', ''PUBLIC KEY'', [jwt_algorithm example_config])]
          \<and> decode_calls (snd (dispatch security_bearer decode_accepting mw
                                 data_request next_ok))
              = [(credentials bearer_credentials, ''PUBLIC KEY'',
                  [jwt_algorithm example_config])])"
proof -
  have gone: "missing_file (public_key_path example_config)
                = Inl (FileNotFoundError ''[Errno 2] No such file or directory'')"
    by (simp add: missing_file_def)
  have there: "readable_file (public_key_path example_config) = Inr ''PUBLIC KEY''"
    by (simp add: readable_file_def)
  have path: "url_path data_request \<notin> set exempt_paths"
    by (simp add: data_request_def exempt_paths_def)
  have extracted: "security_bearer data_request = Inr bearer_credentials"
    by (simp add: security_bearer_def)
  have exits: "fst (create_jwt_middleware missing_file example_config)
                 = Inl (SystemExit
                          (''Cannot find public key: ''
                             @ ''[Errno 2] No such file or directory''))"
    by (rule key_loaded_once_or_startup_fails
          [of missing_file example_config, THEN conjunct2, THEN conjunct1,
           rule_format, OF gone])
  obtain mw where built: "fst (create_jwt_middleware readable_file example_config) = Inr mw"
    and key: "PUBLIC_KEY mw = ''PUBLIC KEY''"
    and serving: "\<forall>security jwt_decode req call_next.
                file_reads (snd (dispatch security jwt_decode mw req call_next)) = []
                \<and> (\<forall>(t, k, a) \<in> set (decode_calls
                                          (snd (dispatch security jwt_decode mw req call_next))).
                      k = ''PUBLIC KEY'')"
    and verifying: "\<forall>jwt_decode access_token.
                decode_calls (snd (is_jwt_access_token_valid jwt_decode mw access_token))
                  = [(access_token, ''PUBLIC KEY'', [jwt_algorithm example_config])]
                \<and> fst (is_jwt_access_token_valid jwt_decode mw access_token)
                  = Inr (case jwt_decode access_token ''PUBLIC KEY''
                                [jwt_algorithm example_config] of
                           Inl exc \<Rightarrow> False
                         | Inr p \<Rightarrow> p ''username'' \<noteq> None)"
    and gating: "\<forall>security jwt_decode req call_next creds.
                url_path req \<notin> set exempt_paths \<and> security req = Inr creds \<longrightarrow>
                  decode_calls (snd (dispatch security jwt_decode mw req call_next))
                    = [(credentials creds, ''PUBLIC KEY'', [jwt_algorithm example_config])]
                  \<and> (next_calls (snd (dispatch security jwt_decode mw req call_next)) \<noteq> []
                       \<longrightarrow> (\<exists>p. jwt_decode (credentials creds) ''PUBLIC KEY''
                                      [jwt_algorithm example_config] = Inr p
                                  \<and> p ''username'' \<noteq> None))"
    using key_loaded_once_or_startup_fails
          [of readable_file example_config, THEN conjunct2, THEN conjunct2,
           THEN conjunct2, THEN spec, THEN mp, OF there]
    by (elim exE conjE)
  have quiet: "file_reads (snd (dispatch security_bearer decode_accepting mw
                                  data_request next_ok)) = []"
    using serving [THEN spec, THEN spec, THEN spec, THEN spec, THEN conjunct1] .
  have verified: "decode_calls (snd (is_jwt_access_token_valid decode_accepting mw ''token''))
                    = [(''token'', ''PUBLIC KEY'', [jwt_algorithm example_config])]"
    using verifying [THEN spec, THEN spec, THEN conjunct1] .
  have gated: "decode_calls (snd (dispatch security_bearer decode_accepting mw
                                    data_request next_ok))
                 = [(credentials bearer_credentials, ''PUBLIC KEY'',
                     [jwt_algorithm example_config])]"
    using gating
      [THEN spec [of _ security_bearer], THEN spec [of _ decode_accepting],
       THEN spec [of _ data_request], THEN spec [of _ next_ok],
       THEN spec [of _ bearer_credentials], THEN mp, OF conjI [OF path extracted],
       THEN conjunct1] .
  show ?thesis
    using gone exits there path extracted built key quiet verified gated
    by (intro conjI exI)
qed

text \<open>
  C9: the \<open>enabled\<close> flag changes nothing. Whatever the flag is set to,
  \<open>create_jwt_middleware\<close> reads the key file, fails or succeeds alike and loads
  the same key; and the middlewares built from two configurations that differ only in
  the flag answer every request and judge every token identically, with the same
  calls to their collaborators.
\<close>

theorem enabled_flag_ignored:
  "snd (create_jwt_middleware open_read (c\<lparr>enabled := b\<rparr>))
     = snd (create_jwt_middleware open_read c)
   \<and> file_reads (snd (create_jwt_middleware open_read (c\<lparr>enabled := b\<rparr>)))
       = [public_key_path c]
   \<and> map_sum id PUBLIC_KEY (fst (create_jwt_middleware open_read (c\<lparr>enabled := b\<rparr>)))
       = map_sum id PUBLIC_KEY (fst (create_jwt_middleware open_read c))
   \<and> (\<forall>mw1 mw2.
        fst (create_jwt_middleware open_read (c\<lparr>enabled := True\<rparr>)) = Inr mw1
        \<and> fst (create_jwt_middleware open_read (c\<lparr>enabled := False\<rparr>)) = Inr mw2
        \<longrightarrow> dispatch security jwt_decode mw1 req call_next
              = dispatch security jwt_decode mw2 req call_next
            \<and> is_jwt_access_token_valid jwt_decode mw1 access_token
              = is_jwt_access_token_valid jwt_decode mw2 access_token)"
proof -
  have same_trace: "snd (create_jwt_middleware open_read (c\<lparr>enabled := b\<rparr>))
                      = snd (create_jwt_middleware open_read c)"
    by (simp add: create_enabled_irrelevant)
  have reads: "file_reads (snd (create_jwt_middleware open_read (c\<lparr>enabled := b\<rparr>)))
                 = [public_key_path c]"
    by (simp add: create_unfold)
  have same_key:
    "map_sum id PUBLIC_KEY (fst (create_jwt_middleware open_read (c\<lparr>enabled := b\<rparr>)))
       = map_sum id PUBLIC_KEY (fst (create_jwt_middleware open_read c))"
    by (cases "fst (create_jwt_middleware open_read c)")
      (simp_all add: create_enabled_irrelevant)
  have same_behaviour:
    "dispatch security jwt_decode mw1 req call_next
       = dispatch security jwt_decode mw2 req call_next
     \<and> is_jwt_access_token_valid jwt_decode mw1 access_token
       = is_jwt_access_token_valid jwt_decode mw2 access_token"
    if on: "fst (create_jwt_middleware open_read (c\<lparr>enabled := True\<rparr>)) = Inr mw1"
      and off: "fst (create_jwt_middleware open_read (c\<lparr>enabled := False\<rparr>)) = Inr mw2"
    for mw1 mw2
  proof -
    obtain mw where mw: "fst (create_jwt_middleware open_read c) = Inr mw"
      using on by (cases "fst (create_jwt_middleware open_read c)")
        (simp_all add: create_enabled_irrelevant)
    have "mw1 = mw\<lparr>auth_config := (auth_config mw)\<lparr>enabled := True\<rparr>\<rparr>"
      using on mw by (simp add: create_enabled_irrelevant)
    moreover have "mw2 = mw\<lparr>auth_config := (auth_config mw)\<lparr>enabled := False\<rparr>\<rparr>"
      using off mw by (simp add: create_enabled_irrelevant)
    ultimately show ?thesis
      by (simp add: dispatch_enabled_irrelevant valid_enabled_irrelevant)
  qed
  show ?thesis
    using same_trace reads same_key same_behaviour by blast
qed

theorem enabled_flag_ignored_witness:
  "fst (create_jwt_middleware readable_file (example_config\<lparr>enabled := True\<rparr>))
     = Inr \<lparr>PUBLIC_KEY = ''PUBLIC KEY'', auth_config = example_config\<lparr>enabled := True\<rparr>\<rparr>
   \<and> fst (create_jwt_middleware readable_file (example_config\<lparr>enabled := False\<rparr>))
     = Inr \<lparr>PUBLIC_KEY = ''PUBLIC KEY'', auth_config = example_config\<lparr>enabled := False\<rparr>\<rparr>
   \<and> dispatch security_bearer decode_rejecting
        \<lparr>PUBLIC_KEY = ''PUBLIC KEY'', auth_config = example_config\<lparr>enabled := True\<rparr>\<rparr>
        data_request next_ok
     = dispatch security_bearer decode_rejecting
        \<lparr>PUBLIC_KEY = ''PUBLIC KEY'', auth_config = example_config\<lparr>enabled := False\<rparr>\<rparr>
        data_request next_ok"
proof -
  have on: "fst (create_jwt_middleware readable_file (example_config\<lparr>enabled := True\<rparr>))
     = Inr \<lparr>PUBLIC_KEY = ''PUBLIC KEY'', auth_config = example_config\<lparr>enabled := True\<rparr>\<rparr>"
    by (simp add: create_unfold readable_file_def)
  have off: "fst (create_jwt_middleware readable_file (example_config\<lparr>enabled := False\<rparr>))
     = Inr \<lparr>PUBLIC_KEY = ''PUBLIC KEY'', auth_config = example_config\<lparr>enabled := False\<rparr>\<rparr>"
    by (simp add: create_unfold readable_file_def)
  show ?thesis
    using on off
      enabled_flag_ignored
        [where open_read = readable_file and c = example_config
           and security = security_bearer and jwt_decode = decode_rejecting
           and req = data_request and call_next = next_ok]
    by blast
qed

end
